theory Spec2Isabelle
  imports Main "HOL-Library.Word"
begin

section \<open>Data model of the middleware package\<close>

text \<open>
  Modelled from the spec: the declaration of \<^verbatim>\<open>models.User\<close> is not among the sources.
  The spec gives the identity the fields \<^verbatim>\<open>EmailVerified: bool\<close>, \<^verbatim>\<open>CanRequestWork: bool\<close>
  and \<^verbatim>\<open>Type: enum{PROVIDER, REQUESTER}\<close>; these are the only fields the middleware reads.
\<close>

datatype UserType = PROVIDER | REQUESTER

record User =
  EmailVerified :: bool
  CanRequestWork :: bool
  Type :: UserType

text \<open>
  \<^verbatim>\<open>type UserContextValue struct { User *models.User; AuthType string }\<close>.
  The pointer field is an option: \<open>None\<close> is the nil pointer.
\<close>

record UserContextValue =
  User :: "User option"
  AuthType :: string

text \<open>
  A \<^verbatim>\<open>context.Context\<close> is a chain of key/value cells over a background context, and
  \<^verbatim>\<open>ctx.Value(k)\<close> walks the chain from the newest cell. Keys are compared as interface
  values; \<^verbatim>\<open>userCtxKey\<close> is a pointer private to the package, so every other key is a
  different one (\<open>foreignKey\<close>). A stored value is an \<^verbatim>\<open>interface{}\<close>: either a
  \<^verbatim>\<open>*UserContextValue\<close> (possibly a nil pointer of that type) or a value of some other
  dynamic type. \<open>Value\<close> returns \<open>None\<close> for the nil interface.
\<close>

datatype key = userCtxKey | foreignKey string

datatype any = UserContextValuePtr "UserContextValue option" | otherValue string

datatype Context = Background | WithValue Context key any

fun Value :: "Context \<Rightarrow> key \<Rightarrow> any option" where
  "Value Background k = None"
| "Value (WithValue parent k' v) k = (if k = k' then Some v else Value parent k)"

section \<open>The authorization predicates\<close>

text \<open>
  \<^verbatim>\<open>raw, _ := ctx.Value(userCtxKey).(*UserContextValue); return raw\<close>.
  The two-result form of the type assertion yields the zero value (a nil pointer) when the
  interface is nil or holds another dynamic type.
\<close>

definition forContext :: "Context \<Rightarrow> UserContextValue option" where
  "forContext ctx =
     (case Value ctx userCtxKey of
        None \<Rightarrow> None
      | Some (UserContextValuePtr raw) \<Rightarrow> raw
      | Some (otherValue _) \<Rightarrow> None)"

text \<open>
  Each predicate tests \<^verbatim>\<open>contextValue == nil || contextValue.User == nil || ...\<close> from left
  to right; the fields of the user are read only behind the two nil tests.
\<close>

definition AuthorizedUser :: "Context \<Rightarrow> UserContextValue option" where
  "AuthorizedUser ctx =
     (case forContext ctx of
        None \<Rightarrow> None
      | Some contextValue \<Rightarrow>
          (case User contextValue of
             None \<Rightarrow> None
           | Some u \<Rightarrow>
               if AuthType contextValue \<noteq> ''jwt'' then None else Some contextValue))"

definition AuthorizedProvider :: "Context \<Rightarrow> UserContextValue option" where
  "AuthorizedProvider ctx =
     (case forContext ctx of
        None \<Rightarrow> None
      | Some contextValue \<Rightarrow>
          (case User contextValue of
             None \<Rightarrow> None
           | Some u \<Rightarrow>
               if AuthType contextValue \<noteq> ''jwt'' \<or> \<not> EmailVerified u \<or> Type u \<noteq> PROVIDER
               then None else Some contextValue))"

definition AuthorizedRequester :: "Context \<Rightarrow> UserContextValue option" where
  "AuthorizedRequester ctx =
     (case forContext ctx of
        None \<Rightarrow> None
      | Some contextValue \<Rightarrow>
          (case User contextValue of
             None \<Rightarrow> None
           | Some u \<Rightarrow>
               if AuthType contextValue \<noteq> ''jwt'' \<or> \<not> EmailVerified u \<or> \<not> CanRequestWork u
                  \<or> Type u \<noteq> REQUESTER
               then None else Some contextValue))"

definition AuthorizedServiceToken :: "Context \<Rightarrow> UserContextValue option" where
  "AuthorizedServiceToken ctx =
     (case forContext ctx of
        None \<Rightarrow> None
      | Some contextValue \<Rightarrow>
          (case User contextValue of
             None \<Rightarrow> None
           | Some u \<Rightarrow>
               if AuthType contextValue \<noteq> ''token'' \<or> \<not> EmailVerified u \<or> \<not> CanRequestWork u
                  \<or> Type u \<noteq> REQUESTER
               then None else Some contextValue))"

definition AuthorizedChangePassword :: "Context \<Rightarrow> UserContextValue option" where
  "AuthorizedChangePassword ctx =
     (case forContext ctx of
        None \<Rightarrow> None
      | Some contextValue \<Rightarrow>
          (case User contextValue of
             None \<Rightarrow> None
           | Some u \<Rightarrow>
               if AuthType contextValue \<noteq> ''token'' then None else Some contextValue))"

section \<open>The request, its collaborators and the observable effects\<close>

text \<open>
  \<^verbatim>\<open>http.Header\<close> is a \<^verbatim>\<open>map[string][]string\<close>; \<^verbatim>\<open>Header.Get\<close> returns the first value
  stored under the key, and the empty string when there is none.
\<close>

record Request =
  Header :: "string \<rightharpoonup> string list"
  Context :: Context

definition Header_Get :: "(string \<rightharpoonup> string list) \<Rightarrow> string \<Rightarrow> string" where
  "Header_Get h k = (case h k of None \<Rightarrow> [] | Some [] \<Rightarrow> [] | Some (v # _) \<Rightarrow> v)"

text \<open>
  \<^verbatim>\<open>strings.HasPrefix(s, prefix)\<close> is
  \<^verbatim>\<open>len(s) >= len(prefix) && s[:len(prefix)] == prefix\<close>.
\<close>

definition HasPrefix :: "string \<Rightarrow> string \<Rightarrow> bool" where
  "HasPrefix s pre \<longleftrightarrow> length pre \<le> length s \<and> take (length pre) s = pre"

text \<open>\<^verbatim>\<open>uuid.UUID\<close> is a \<^verbatim>\<open>[16]byte\<close>; a Go \<^verbatim>\<open>error\<close> is carried as its message.\<close>

type_synonym UUID = "128 word"

type_synonym error = string

text \<open>
  The functions the middleware calls and whose bodies are not among the sources are
  parameters of the model. A call that returns \<^verbatim>\<open>(value, err)\<close> is a sum: \<open>Inl\<close> is a non-nil
  \<^verbatim>\<open>err\<close>, \<open>Inr\<close> the value returned with a nil \<^verbatim>\<open>err\<close>.
  \<^item> \<open>ParseToken\<close>: \<^verbatim>\<open>auth.ParseToken\<close>, the token decoded to an email;
  \<^item> \<open>GetResetPasswordToken\<close>, \<open>GetServiceTokenUser\<close>: the two lookups on
    \<^verbatim>\<open>database.GetRedisDB()\<close>;
  \<^item> \<open>GetServiceTokens\<close>: \<^verbatim>\<open>utils.GetServiceTokens()\<close>, the configured service tokens;
  \<^item> \<open>uuid_Parse\<close>: \<^verbatim>\<open>uuid.Parse\<close>;
  \<^item> \<open>GetUser\<close>: \<^verbatim>\<open>userRepo.GetUser(id, email)\<close>, with its two pointer arguments and its
    pointer result as options;
  \<^item> \<open>GetIPAddress\<close>: \<^verbatim>\<open>net.GetIPAddress(r)\<close>;
  \<^item> \<open>ErrorResponseJSON ctx m\<close>: \<^verbatim>\<open>json.Marshal(graphql.ErrorResponse(ctx, m))\<close>.
\<close>

record Env =
  ParseToken :: "string \<Rightarrow> error + string"
  GetResetPasswordToken :: "string \<Rightarrow> error + string"
  GetServiceTokens :: "string list"
  GetServiceTokenUser :: "string \<Rightarrow> error + string"
  uuid_Parse :: "string \<Rightarrow> error + UUID"
  GetUser :: "UUID option \<Rightarrow> string option \<Rightarrow> error + User option"
  GetIPAddress :: "Request \<Rightarrow> string"
  ErrorResponseJSON :: "Context \<Rightarrow> string \<Rightarrow> error + string"

text \<open>
  What a run of the handler does besides answering: the lookups on the two stores and the
  lines written with \<^verbatim>\<open>klog.Errorf\<close>, in the order they happen.
\<close>

datatype event =
    RedisGetResetPasswordToken string
  | RedisGetServiceTokenUser string
  | RepoGetUser "UUID option" "string option"
  | klog_Errorf string

text \<open>
  The handler ends in exactly one of two ways: it calls \<^verbatim>\<open>next.ServeHTTP(w, r)\<close> with a
  request, or it calls \<^verbatim>\<open>http.Error(w, error, code)\<close> and returns without calling the next
  handler. \<open>http_Error\<close> carries the error string and the status code handed to
  \<^verbatim>\<open>http.Error\<close>, which writes them as the response.
\<close>

datatype outcome = next_ServeHTTP Request | http_Error string int

definition StatusForbidden :: int where
  "StatusForbidden = 403"

section \<open>The middleware\<close>

text \<open>
  \<^verbatim>\<open>formatGraphqlError(ctx, msg)\<close> marshals \<^verbatim>\<open>graphql.ErrorResponse(ctx, "Invalid token")\<close>:
  the message is the literal of the body, and the parameter \<^verbatim>\<open>msg\<close> is not read.
\<close>

definition formatGraphqlError :: "Env \<Rightarrow> Context \<Rightarrow> string \<Rightarrow> string" where
  \<open>formatGraphqlError env ctx msg =
     (case ErrorResponseJSON env ctx ''Invalid token'' of
        Inl err \<Rightarrow> ''"errors": [{"message": "Unknown"}]''
      | Inr marshalled \<Rightarrow> marshalled)\<close>

text \<open>\<^verbatim>\<open>r.WithContext(ctx)\<close>: the request with its context replaced.\<close>

definition WithContext :: "Request \<Rightarrow> Context \<Rightarrow> Request" where
  "WithContext r ctx = r\<lparr>Context := ctx\<rparr>"

text \<open>
  The handler returned by \<^verbatim>\<open>AuthMiddleware(userRepo)(next)\<close>, run on the request \<open>r\<close>.
  The three branches that reach the end of the function have set
  \<^verbatim>\<open>ctx = context.WithValue(r.Context(), userCtxKey, &UserContextValue{...})\<close> and end in
  \<^verbatim>\<open>r = r.WithContext(ctx); next.ServeHTTP(w, r)\<close>.
\<close>

definition AuthMiddleware :: "Env \<Rightarrow> Request \<Rightarrow> outcome \<times> event list" where
  "AuthMiddleware env r =
     (let header = Header_Get (Header r) ''Authorization'' in
      if header = [] then (next_ServeHTTP r, [])
      else if HasPrefix header ''resetpassword:'' then
        (let token = drop (length ''resetpassword:'') header in
         case ParseToken env token of
           Inl err \<Rightarrow>
             (http_Error (formatGraphqlError env (Context r) ''Invalid Token'') StatusForbidden, [])
         | Inr email \<Rightarrow>
             (case GetResetPasswordToken env email of
                Inl err \<Rightarrow>
                  (http_Error (formatGraphqlError env (Context r) ''Invalid Token'') StatusForbidden,
                   [RedisGetResetPasswordToken email])
              | Inr _ \<Rightarrow>
                  (case GetUser env None (Some email) of
                     Inl err \<Rightarrow>
                       (next_ServeHTTP r,
                        [RedisGetResetPasswordToken email, RepoGetUser None (Some email)])
                   | Inr user \<Rightarrow>
                       (next_ServeHTTP (WithContext r (WithValue (Context r) userCtxKey
                          (UserContextValuePtr (Some \<lparr>User = user, AuthType = ''token''\<rparr>)))),
                        [RedisGetResetPasswordToken email, RepoGetUser None (Some email)]))))
      else if HasPrefix header ''service:'' then
        (if header \<notin> set (GetServiceTokens env) then
           (http_Error (formatGraphqlError env (Context r) ''Invalid Token'') StatusForbidden,
            [klog_Errorf (''INVALID TOKEN ATTEMPT 1 '' @ header @ '':'' @ GetIPAddress env r)])
         else
           (case GetServiceTokenUser env header of
              Inl err \<Rightarrow>
                (http_Error (formatGraphqlError env (Context r) ''Invalid Token'') StatusForbidden,
                 [RedisGetServiceTokenUser header,
                  klog_Errorf (''INVALID TOKEN ATTEMPT '' @ header @ '':'' @ GetIPAddress env r)])
            | Inr userID \<Rightarrow>
                (case uuid_Parse env userID of
                   Inl err \<Rightarrow>
                     (http_Error (formatGraphqlError env (Context r) ''Invalid Token'')
                        StatusForbidden,
                      [RedisGetServiceTokenUser header])
                 | Inr userUUID \<Rightarrow>
                     (case GetUser env (Some userUUID) None of
                        Inl err \<Rightarrow>
                          (next_ServeHTTP r,
                           [RedisGetServiceTokenUser header, RepoGetUser (Some userUUID) None])
                      | Inr user \<Rightarrow>
                          (next_ServeHTTP (WithContext r (WithValue (Context r) userCtxKey
                             (UserContextValuePtr
                                (Some \<lparr>User = user, AuthType = ''token''\<rparr>)))),
                           [RedisGetServiceTokenUser header,
                            RepoGetUser (Some userUUID) None])))))
      else
        (let tokenStr = header in
         case ParseToken env tokenStr of
           Inl err \<Rightarrow>
             (http_Error (formatGraphqlError env (Context r) ''Invalid Token'') StatusForbidden, [])
         | Inr email \<Rightarrow>
             (case GetUser env None (Some email) of
                Inl err \<Rightarrow> (next_ServeHTTP r, [RepoGetUser None (Some email)])
              | Inr user \<Rightarrow>
                  (next_ServeHTTP (WithContext r (WithValue (Context r) userCtxKey
                     (UserContextValuePtr (Some \<lparr>User = user, AuthType = ''jwt''\<rparr>)))),
                   [RepoGetUser None (Some email)]))))"

section \<open>The queues of the server entry point\<close>

text \<open>
  A Go channel made by \<^verbatim>\<open>make(chan T, n)\<close> has a buffer of capacity \<open>n\<close>;
  \<^verbatim>\<open>make(chan T)\<close> is \<^verbatim>\<open>make(chan T, 0)\<close>. While no receiver is taking values, a send
  completes if the buffer has room and blocks otherwise; \<open>send\<close> is \<open>None\<close> where the
  sender blocks. \<open>sendAll\<close> is a run of sends with no receive between them.
\<close>

record 'a chan =
  cap :: nat
  buf :: "'a list"

definition make_chan :: "nat \<Rightarrow> 'a chan" where
  "make_chan n = \<lparr>cap = n, buf = []\<rparr>"

definition send :: "'a chan \<Rightarrow> 'a \<Rightarrow> 'a chan option" where
  "send c x = (if length (buf c) < cap c then Some (c\<lparr>buf := buf c @ [x]\<rparr>) else None)"

fun sendAll :: "'a chan \<Rightarrow> 'a list \<Rightarrow> 'a chan option" where
  "sendAll c [] = Some c"
| "sendAll c (x # xs) = (case send c x of None \<Rightarrow> None | Some c' \<Rightarrow> sendAll c' xs)"

text \<open>
  The two channels \<^verbatim>\<open>runServer\<close> makes:
  \<^verbatim>\<open>statsChan := make(chan repository.WorkMessage, 100)\<close> and
  \<^verbatim>\<open>blockAwardedChan := make(chan serializableModels.ClientMessage)\<close>. The two message
  types are declared outside the sources and are type parameters here.
\<close>

record ('w, 'c) queues =
  statsChan :: "'w chan"
  blockAwardedChan :: "'c chan"

definition runServer :: "('w, 'c) queues" where
  "runServer = \<lparr>statsChan = make_chan 100, blockAwardedChan = make_chan 0\<rparr>"

section \<open>Sample inputs\<close>

text \<open>Concrete identities, contexts, collaborators and requests on which the theorems are run.\<close>

definition requester :: User where
  "requester = \<lparr>EmailVerified = True, CanRequestWork = True, Type = REQUESTER\<rparr>"

definition provider :: User where
  "provider = \<lparr>EmailVerified = True, CanRequestWork = True, Type = PROVIDER\<rparr>"

definition newcomer :: User where
  "newcomer = \<lparr>EmailVerified = False, CanRequestWork = False, Type = REQUESTER\<rparr>"

definition holding :: "User \<Rightarrow> string \<Rightarrow> Context" where
  "holding u authType =
     WithValue Background userCtxKey
       (UserContextValuePtr (Some \<lparr>User = Some u, AuthType = authType\<rparr>))"

text \<open>
  Modelled from the spec: what \<^verbatim>\<open>json.Marshal(graphql.ErrorResponse(ctx, m))\<close> returns is
  decided outside the sources. The spec shapes the body as a single GraphQL-style error
  envelope, \<^verbatim>\<open>{"errors":[{"message":m}]}\<close>.
\<close>

definition errorEnvelope :: "Context \<Rightarrow> string \<Rightarrow> error + string" where
  \<open>errorEnvelope ctx m = Inr (''{"errors":[{"message":"'' @ m @ ''"}]}'')\<close>

definition sampleEnv :: Env where
  "sampleEnv =
     \<lparr>ParseToken = (\<lambda>t. if t = ''t-ann'' then Inr ''ann@example.org''
                         else if t = ''t-ghost'' then Inr ''ghost@example.org''
                         else if t = ''t-stale'' then Inr ''stale@example.org''
                         else Inl ''token is malformed''),
      GetResetPasswordToken = (\<lambda>e. if e = ''ann@example.org'' \<or> e = ''ghost@example.org''
                                    then Inr ''1'' else Inl ''redis: nil''),
      GetServiceTokens = [''service:alpha'', ''service:unbound'', ''service:garbled'',
                          ''service:ghost''],
      GetServiceTokenUser = (\<lambda>h. if h = ''service:alpha'' then Inr ''id-ann''
                                  else if h = ''service:garbled'' then Inr ''not-a-uuid''
                                  else if h = ''service:ghost'' then Inr ''id-ghost''
                                  else Inl ''redis: nil''),
      uuid_Parse = (\<lambda>s. if s = ''id-ann'' then Inr 1
                         else if s = ''id-ghost'' then Inr 2
                         else Inl ''invalid UUID format''),
      GetUser = (\<lambda>id email. if id = Some 1 \<or> email = Some ''ann@example.org''
                              then Inr (Some requester) else Inl ''record not found''),
      GetIPAddress = (\<lambda>r. ''203.0.113.7''),
      ErrorResponseJSON = errorEnvelope\<rparr>"

definition requestWith :: "string \<Rightarrow> Request" where
  "requestWith h = \<lparr>Header = [''Authorization'' \<mapsto> [h]], Context = Background\<rparr>"

definition requestWithout :: Request where
  "requestWithout = \<lparr>Header = Map.empty, Context = Background\<rparr>"

section \<open>Auxiliary facts\<close>

lemma forContext_holding: "forContext (holding u a) = Some \<lparr>User = Some u, AuthType = a\<rparr>"
  by (simp add: forContext_def holding_def)

lemma forContext_WithContext:
  "forContext (Context (WithContext r (WithValue c userCtxKey (UserContextValuePtr p)))) = p"
  by (simp add: forContext_def WithContext_def)

lemma Header_Get_requestWith: "Header_Get (Header (requestWith t)) ''Authorization'' = t"
  by (cases t) (simp_all add: requestWith_def Header_Get_def)

lemma Context_requestWith: "Context (requestWith t) = Background"
  by (simp add: requestWith_def)

lemma HasPrefix_iff: "HasPrefix s pre \<longleftrightarrow> (\<exists>t. s = pre @ t)"
  unfolding HasPrefix_def
  by (metis append_eq_conv_conj append_take_drop_id length_append le_add1)

lemma service_not_resetpassword:
  "HasPrefix h ''service:'' \<Longrightarrow> \<not> HasPrefix h ''resetpassword:''"
  by (auto simp: HasPrefix_iff)

lemma HasPrefix_nonempty: "HasPrefix h pre \<Longrightarrow> pre \<noteq> [] \<Longrightarrow> h \<noteq> []"
  by (auto simp: HasPrefix_iff)

lemma formatGraphqlError_msg:
  "formatGraphqlError env ctx msg = formatGraphqlError env ctx msg'"
  by (simp add: formatGraphqlError_def)

text \<open>The three branches of the dispatch, each as one equation.\<close>

lemma resetpassword_branch:
  assumes "HasPrefix (Header_Get (Header r) ''Authorization'') ''resetpassword:''"
  shows "AuthMiddleware env r =
    (case ParseToken env (drop (length ''resetpassword:'') (Header_Get (Header r) ''Authorization'')) of
       Inl err \<Rightarrow>
         (http_Error (formatGraphqlError env (Context r) ''Invalid Token'') StatusForbidden, [])
     | Inr email \<Rightarrow>
         (case GetResetPasswordToken env email of
            Inl err \<Rightarrow>
              (http_Error (formatGraphqlError env (Context r) ''Invalid Token'') StatusForbidden,
               [RedisGetResetPasswordToken email])
          | Inr v \<Rightarrow>
              (case GetUser env None (Some email) of
                 Inl err \<Rightarrow>
                   (next_ServeHTTP r,
                    [RedisGetResetPasswordToken email, RepoGetUser None (Some email)])
               | Inr user \<Rightarrow>
                   (next_ServeHTTP (WithContext r (WithValue (Context r) userCtxKey
                      (UserContextValuePtr (Some \<lparr>User = user, AuthType = ''token''\<rparr>)))),
                    [RedisGetResetPasswordToken email, RepoGetUser None (Some email)]))))"
proof -
  from assms have "Header_Get (Header r) ''Authorization'' \<noteq> []"
    by (rule HasPrefix_nonempty) simp
  with assms show ?thesis
    by (simp add: AuthMiddleware_def Let_def)
qed

lemma service_branch:
  assumes "HasPrefix (Header_Get (Header r) ''Authorization'') ''service:''"
  shows "AuthMiddleware env r =
    (let header = Header_Get (Header r) ''Authorization'' in
     if header \<notin> set (GetServiceTokens env) then
       (http_Error (formatGraphqlError env (Context r) ''Invalid Token'') StatusForbidden,
        [klog_Errorf (''INVALID TOKEN ATTEMPT 1 '' @ header @ '':'' @ GetIPAddress env r)])
     else
       (case GetServiceTokenUser env header of
          Inl err \<Rightarrow>
            (http_Error (formatGraphqlError env (Context r) ''Invalid Token'') StatusForbidden,
             [RedisGetServiceTokenUser header,
              klog_Errorf (''INVALID TOKEN ATTEMPT '' @ header @ '':'' @ GetIPAddress env r)])
        | Inr userID \<Rightarrow>
            (case uuid_Parse env userID of
               Inl err \<Rightarrow>
                 (http_Error (formatGraphqlError env (Context r) ''Invalid Token'')
                    StatusForbidden,
                  [RedisGetServiceTokenUser header])
             | Inr userUUID \<Rightarrow>
                 (case GetUser env (Some userUUID) None of
                    Inl err \<Rightarrow>
                      (next_ServeHTTP r,
                       [RedisGetServiceTokenUser header, RepoGetUser (Some userUUID) None])
                  | Inr user \<Rightarrow>
                      (next_ServeHTTP (WithContext r (WithValue (Context r) userCtxKey
                         (UserContextValuePtr
                            (Some \<lparr>User = user, AuthType = ''token''\<rparr>)))),
                       [RedisGetServiceTokenUser header,
                        RepoGetUser (Some userUUID) None])))))"
proof -
  from assms have "Header_Get (Header r) ''Authorization'' \<noteq> []"
    by (rule HasPrefix_nonempty) simp
  moreover from assms
  have "\<not> HasPrefix (Header_Get (Header r) ''Authorization'') ''resetpassword:''"
    by (rule service_not_resetpassword)
  ultimately show ?thesis using assms
    by (simp add: AuthMiddleware_def Let_def)
qed

lemma bearer_branch:
  assumes "Header_Get (Header r) ''Authorization'' \<noteq> []"
    and "\<not> HasPrefix (Header_Get (Header r) ''Authorization'') ''resetpassword:''"
    and "\<not> HasPrefix (Header_Get (Header r) ''Authorization'') ''service:''"
  shows "AuthMiddleware env r =
    (case ParseToken env (Header_Get (Header r) ''Authorization'') of
       Inl err \<Rightarrow>
         (http_Error (formatGraphqlError env (Context r) ''Invalid Token'') StatusForbidden, [])
     | Inr email \<Rightarrow>
         (case GetUser env None (Some email) of
            Inl err \<Rightarrow> (next_ServeHTTP r, [RepoGetUser None (Some email)])
          | Inr user \<Rightarrow>
              (next_ServeHTTP (WithContext r (WithValue (Context r) userCtxKey
                 (UserContextValuePtr (Some \<lparr>User = user, AuthType = ''jwt''\<rparr>)))),
               [RepoGetUser None (Some email)])))"
  using assms by (simp add: AuthMiddleware_def Let_def)

text \<open>Every rejection carries the same status and the same error string.\<close>

lemma rejection_uniform:
  assumes "AuthMiddleware env r = (http_Error body code, evs)"
  shows "code = StatusForbidden \<and> body = formatGraphqlError env (Context r) ''Invalid Token''"
proof -
  let ?h = "Header_Get (Header r) ''Authorization''"
  consider "?h = []" | "HasPrefix ?h ''resetpassword:''" | "HasPrefix ?h ''service:''"
    | "?h \<noteq> []" "\<not> HasPrefix ?h ''resetpassword:''" "\<not> HasPrefix ?h ''service:''"
    by blast
  then show ?thesis
  proof cases
    case 1
    with assms show ?thesis by (simp add: AuthMiddleware_def)
  next
    case 2
    with assms show ?thesis
      by (auto simp: resetpassword_branch split: sum.splits)
  next
    case 3
    with assms show ?thesis
      by (auto simp: service_branch Let_def split: sum.splits if_splits)
  next
    case 4
    with assms show ?thesis
      by (auto simp: bearer_branch split: sum.splits)
  qed
qed

lemma token_denied:
  assumes "forContext ctx = Some cv" and "AuthType cv = ''token''"
  shows "AuthorizedUser ctx = None" "AuthorizedProvider ctx = None"
    "AuthorizedRequester ctx = None"
  using assms
  by (simp_all add: AuthorizedUser_def AuthorizedProvider_def AuthorizedRequester_def
      split: option.splits)

lemma absent_denied:
  assumes "forContext ctx = None"
  shows "AuthorizedUser ctx = None" "AuthorizedProvider ctx = None"
    "AuthorizedRequester ctx = None" "AuthorizedServiceToken ctx = None"
    "AuthorizedChangePassword ctx = None"
  using assms
  by (simp_all add: AuthorizedUser_def AuthorizedProvider_def AuthorizedRequester_def
      AuthorizedServiceToken_def AuthorizedChangePassword_def)

lemma token_scheme_next:
  assumes "HasPrefix (Header_Get (Header r) ''Authorization'') ''resetpassword:''
         \<or> HasPrefix (Header_Get (Header r) ''Authorization'') ''service:''"
    and "AuthMiddleware env r = (next_ServeHTTP r', evs)"
  shows "r' = r \<or> (\<exists>user. forContext (Context r') = Some \<lparr>User = user, AuthType = ''token''\<rparr>)"
  using assms
  by (auto simp: resetpassword_branch service_branch Let_def forContext_WithContext
      split: sum.splits if_splits)

lemma sendAll_blocks:
  "sendAll c ms = None \<longleftrightarrow> ms \<noteq> [] \<and> cap c < length (buf c) + length ms"
  by (induction ms arbitrary: c) (auto simp: send_def)


lemmas sample_defs =
  sampleEnv_def requestWith_def requestWithout_def holding_def requester_def provider_def
  newcomer_def errorEnvelope_def

lemmas middleware_defs =
  AuthMiddleware_def Header_Get_def HasPrefix_def formatGraphqlError_def WithContext_def
  StatusForbidden_def Let_def

section \<open>The claims\<close>

text \<open>
  Claim C1. A context value whose \<open>AuthType\<close> is \<open>''token''\<close> is denied by each of
  \<open>AuthorizedUser\<close>, \<open>AuthorizedProvider\<close> and \<open>AuthorizedRequester\<close>. The middleware
  attaches only such values under the \<^verbatim>\<open>resetpassword:\<close> and \<^verbatim>\<open>service:\<close> schemes: whenever
  a request that arrives without an AuthContext is handed to the next handler under one of
  these two schemes, the three predicates deny the context it carries.
\<close>

theorem jwt_predicates_deny_token_trust:
  "(forContext ctx = Some cv \<and> AuthType cv = ''token'' \<longrightarrow>
      AuthorizedUser ctx = None \<and> AuthorizedProvider ctx = None \<and> AuthorizedRequester ctx = None)
   \<and> ((HasPrefix (Header_Get (Header r) ''Authorization'') ''resetpassword:''
        \<or> HasPrefix (Header_Get (Header r) ''Authorization'') ''service:'')
       \<and> forContext (Context r) = None
       \<and> AuthMiddleware env r = (next_ServeHTTP r', evs) \<longrightarrow>
      AuthorizedUser (Context r') = None \<and> AuthorizedProvider (Context r') = None
      \<and> AuthorizedRequester (Context r') = None)"
proof (rule conjI; rule impI)
  assume a: "forContext ctx = Some cv \<and> AuthType cv = ''token''"
  then show "AuthorizedUser ctx = None \<and> AuthorizedProvider ctx = None \<and> AuthorizedRequester ctx = None"
    by (simp add: token_denied)
next
  assume b: "(HasPrefix (Header_Get (Header r) ''Authorization'') ''resetpassword:''
        \<or> HasPrefix (Header_Get (Header r) ''Authorization'') ''service:'')
       \<and> forContext (Context r) = None
       \<and> AuthMiddleware env r = (next_ServeHTTP r', evs)"
  then consider "r' = r"
    | user where "forContext (Context r') = Some \<lparr>User = user, AuthType = ''token''\<rparr>"
    using token_scheme_next by blast
  then show "AuthorizedUser (Context r') = None \<and> AuthorizedProvider (Context r') = None
      \<and> AuthorizedRequester (Context r') = None"
  proof cases
    case 1
    with b show ?thesis by (simp add: absent_denied)
  next
    case 2
    then show ?thesis by (simp add: token_denied)
  qed
qed

theorem jwt_predicates_deny_token_trust_witness:
  "forContext (holding requester ''token'') = Some \<lparr>User = Some requester, AuthType = ''token''\<rparr>
   \<and> AuthorizedUser (holding requester ''token'') = None
   \<and> AuthorizedProvider (holding requester ''token'') = None
   \<and> AuthorizedRequester (holding requester ''token'') = None
   \<and> HasPrefix (Header_Get (Header (requestWith ''service:alpha'')) ''Authorization'') ''service:''
   \<and> forContext (Context (requestWith ''service:alpha'')) = None
   \<and> AuthMiddleware sampleEnv (requestWith ''service:alpha'') =
       (next_ServeHTTP (WithContext (requestWith ''service:alpha'') (holding requester ''token'')),
        [RedisGetServiceTokenUser ''service:alpha'', RepoGetUser (Some 1) None])
   \<and> AuthorizedUser (Context (WithContext (requestWith ''service:alpha'')
         (holding requester ''token''))) = None
   \<and> AuthorizedProvider (Context (WithContext (requestWith ''service:alpha'')
         (holding requester ''token''))) = None
   \<and> AuthorizedRequester (Context (WithContext (requestWith ''service:alpha'')
         (holding requester ''token''))) = None"
proof -
  have a: "forContext (holding requester ''token'')
      = Some \<lparr>User = Some requester, AuthType = ''token''\<rparr>"
    by (simp add: forContext_holding)
  have b: "HasPrefix (Header_Get (Header (requestWith ''service:alpha'')) ''Authorization'')
      ''service:''"
    by (simp add: requestWith_def Header_Get_def HasPrefix_def)
  have c: "forContext (Context (requestWith ''service:alpha'')) = None"
    by (simp add: requestWith_def forContext_def)
  have d: "AuthMiddleware sampleEnv (requestWith ''service:alpha'') =
       (next_ServeHTTP (WithContext (requestWith ''service:alpha'') (holding requester ''token'')),
        [RedisGetServiceTokenUser ''service:alpha'', RepoGetUser (Some 1) None])"
    by (simp add: middleware_defs sample_defs)
  show ?thesis
    using a b c d
      jwt_predicates_deny_token_trust [of "holding requester ''token''"
        "\<lparr>User = Some requester, AuthType = ''token''\<rparr>" "requestWith ''service:alpha''"
        sampleEnv "WithContext (requestWith ''service:alpha'') (holding requester ''token'')"
        "[RedisGetServiceTokenUser ''service:alpha'', RepoGetUser (Some 1) None]"]
    by simp
qed

text \<open>
  Claim C2, at a request whose reset-password token does not decode, with the error
  response marshalled to the envelope of the spec. The request is rejected with status 403
  and nothing else happens, but the message in the body is \<^verbatim>\<open>Invalid token\<close>, the literal
  inside \<open>formatGraphqlError\<close>, and not the \<^verbatim>\<open>Invalid Token\<close> that the handler passes.
\<close>

theorem invalid_token_body_differs:
  \<open>AuthMiddleware sampleEnv (requestWith ''resetpassword:junk'')
     = (http_Error ''{"errors":[{"message":"Invalid token"}]}'' 403, [])
   \<and> fst (AuthMiddleware sampleEnv (requestWith ''resetpassword:junk''))
     \<noteq> http_Error ''{"errors":[{"message":"Invalid Token"}]}'' 403\<close>
  by (simp add: middleware_defs sample_defs)

text \<open>
  Claim C3. \<open>AuthorizedServiceToken\<close> denies every context whose identity is a
  \<open>PROVIDER\<close>, whatever its \<open>AuthType\<close>, and every context whose \<open>AuthType\<close> is
  \<open>''jwt''\<close>, whatever its identity; it returns the context value exactly when the
  \<open>AuthType\<close> is \<open>''token''\<close> and the identity is present, has a verified email, may
  request work and is a \<open>REQUESTER\<close>.
\<close>

theorem AuthorizedServiceToken_requires_token_requester:
  "(forContext ctx = Some cv \<and> User cv = Some u \<and> Type u = PROVIDER \<longrightarrow>
      AuthorizedServiceToken ctx = None)
   \<and> (forContext ctx = Some cv \<and> AuthType cv = ''jwt'' \<longrightarrow> AuthorizedServiceToken ctx = None)
   \<and> (AuthorizedServiceToken ctx = Some cv \<longleftrightarrow>
        forContext ctx = Some cv \<and> AuthType cv = ''token''
        \<and> (\<exists>u. User cv = Some u \<and> EmailVerified u \<and> CanRequestWork u \<and> Type u = REQUESTER))"
  by (auto simp: AuthorizedServiceToken_def split: option.splits)

theorem AuthorizedServiceToken_requires_token_requester_witness:
  "AuthorizedServiceToken (holding provider ''token'') = None
   \<and> AuthorizedServiceToken (holding requester ''jwt'') = None
   \<and> AuthorizedServiceToken (holding requester ''token'')
       = Some \<lparr>User = Some requester, AuthType = ''token''\<rparr>"
  using
    AuthorizedServiceToken_requires_token_requester [of "holding provider ''token''"
      "\<lparr>User = Some provider, AuthType = ''token''\<rparr>" provider]
    AuthorizedServiceToken_requires_token_requester [of "holding requester ''jwt''"
      "\<lparr>User = Some requester, AuthType = ''jwt''\<rparr>" requester]
    AuthorizedServiceToken_requires_token_requester [of "holding requester ''token''"
      "\<lparr>User = Some requester, AuthType = ''token''\<rparr>" requester]
  by (simp add: forContext_holding provider_def requester_def)

text \<open>
  Claim C4. \<open>AuthorizedChangePassword\<close> returns the context value when its \<open>AuthType\<close>
  is \<open>''token''\<close> and an identity is present, whatever the flags of that identity, and
  denies every context whose \<open>AuthType\<close> is \<open>''jwt''\<close>.
\<close>

theorem AuthorizedChangePassword_token_only:
  "(forContext ctx = Some cv \<and> AuthType cv = ''token'' \<and> User cv = Some u \<longrightarrow>
      AuthorizedChangePassword ctx = Some cv)
   \<and> (forContext ctx = Some cv \<and> AuthType cv = ''jwt'' \<longrightarrow> AuthorizedChangePassword ctx = None)"
  by (auto simp: AuthorizedChangePassword_def split: option.splits)

theorem AuthorizedChangePassword_token_only_witness:
  "AuthorizedChangePassword (holding newcomer ''token'')
       = Some \<lparr>User = Some newcomer, AuthType = ''token''\<rparr>
   \<and> \<not> EmailVerified newcomer \<and> \<not> CanRequestWork newcomer
   \<and> AuthorizedChangePassword (holding requester ''jwt'') = None"
  using
    AuthorizedChangePassword_token_only [of "holding newcomer ''token''"
      "\<lparr>User = Some newcomer, AuthType = ''token''\<rparr>" newcomer]
    AuthorizedChangePassword_token_only [of "holding requester ''jwt''"
      "\<lparr>User = Some requester, AuthType = ''jwt''\<rparr>" requester]
  by (simp add: forContext_holding newcomer_def)

text \<open>
  Claim C5. Under the \<^verbatim>\<open>service:\<close> scheme the whole header, prefix included, is looked up
  among the configured service tokens. When it is not there the request is rejected with
  status 403 and the error string of an invalid token, and one line holding the header and
  the caller's IP address is logged. When it is there the store is asked for the identity
  id bound to the header, first of all; if that lookup fails, or if the id it returns does
  not parse as a UUID, the request is rejected in the same way.
\<close>

theorem service_scheme_checks:
  assumes "HasPrefix (Header_Get (Header r) ''Authorization'') ''service:''"
  shows
   "(Header_Get (Header r) ''Authorization'' \<notin> set (GetServiceTokens env) \<longrightarrow>
       AuthMiddleware env r =
         (http_Error (formatGraphqlError env (Context r) ''Invalid Token'') 403,
          [klog_Errorf (''INVALID TOKEN ATTEMPT 1 '' @ Header_Get (Header r) ''Authorization''
             @ '':'' @ GetIPAddress env r)]))
    \<and> (Header_Get (Header r) ''Authorization'' \<in> set (GetServiceTokens env) \<longrightarrow>
       (\<exists>evs. snd (AuthMiddleware env r)
          = RedisGetServiceTokenUser (Header_Get (Header r) ''Authorization'') # evs))
    \<and> (Header_Get (Header r) ''Authorization'' \<in> set (GetServiceTokens env)
        \<and> GetServiceTokenUser env (Header_Get (Header r) ''Authorization'') = Inl err \<longrightarrow>
       fst (AuthMiddleware env r)
         = http_Error (formatGraphqlError env (Context r) ''Invalid Token'') 403)
    \<and> (Header_Get (Header r) ''Authorization'' \<in> set (GetServiceTokens env)
        \<and> GetServiceTokenUser env (Header_Get (Header r) ''Authorization'') = Inr userID
        \<and> uuid_Parse env userID = Inl err \<longrightarrow>
       fst (AuthMiddleware env r)
         = http_Error (formatGraphqlError env (Context r) ''Invalid Token'') 403)"
  using assms
  by (auto simp: service_branch Let_def StatusForbidden_def split: sum.splits)

theorem service_scheme_checks_witness:
  "HasPrefix (Header_Get (Header (requestWith ''service:beta'')) ''Authorization'') ''service:''
   \<and> ''service:beta'' \<notin> set (GetServiceTokens sampleEnv)
   \<and> AuthMiddleware sampleEnv (requestWith ''service:beta'') =
       (http_Error (formatGraphqlError sampleEnv Background ''Invalid Token'') 403,
        [klog_Errorf ''INVALID TOKEN ATTEMPT 1 service:beta:203.0.113.7''])
   \<and> ''service:unbound'' \<in> set (GetServiceTokens sampleEnv)
   \<and> GetServiceTokenUser sampleEnv ''service:unbound'' = Inl ''redis: nil''
   \<and> fst (AuthMiddleware sampleEnv (requestWith ''service:unbound''))
       = http_Error (formatGraphqlError sampleEnv Background ''Invalid Token'') 403
   \<and> ''service:garbled'' \<in> set (GetServiceTokens sampleEnv)
   \<and> GetServiceTokenUser sampleEnv ''service:garbled'' = Inr ''not-a-uuid''
   \<and> uuid_Parse sampleEnv ''not-a-uuid'' = Inl ''invalid UUID format''
   \<and> fst (AuthMiddleware sampleEnv (requestWith ''service:garbled''))
       = http_Error (formatGraphqlError sampleEnv Background ''Invalid Token'') 403"
proof -
  have p1: "HasPrefix (Header_Get (Header (requestWith ''service:beta'')) ''Authorization'')
      ''service:''"
    by (simp add: Header_Get_requestWith HasPrefix_def)
  have p2: "HasPrefix (Header_Get (Header (requestWith ''service:unbound'')) ''Authorization'')
      ''service:''"
    by (simp add: Header_Get_requestWith HasPrefix_def)
  have p3: "HasPrefix (Header_Get (Header (requestWith ''service:garbled'')) ''Authorization'')
      ''service:''"
    by (simp add: Header_Get_requestWith HasPrefix_def)
  have s1: "''service:beta'' \<notin> set (GetServiceTokens sampleEnv)"
    by (simp add: sampleEnv_def)
  have s2: "''service:unbound'' \<in> set (GetServiceTokens sampleEnv)"
    by (simp add: sampleEnv_def)
  have s3: "''service:garbled'' \<in> set (GetServiceTokens sampleEnv)"
    by (simp add: sampleEnv_def)
  have s4: "GetServiceTokenUser sampleEnv ''service:unbound'' = Inl ''redis: nil''"
    by (simp add: sampleEnv_def)
  have s5: "GetServiceTokenUser sampleEnv ''service:garbled'' = Inr ''not-a-uuid''"
    by (simp add: sampleEnv_def)
  have s6: "uuid_Parse sampleEnv ''not-a-uuid'' = Inl ''invalid UUID format''"
    by (simp add: sampleEnv_def)
  have ip: "GetIPAddress sampleEnv (requestWith ''service:beta'') = ''203.0.113.7''"
    by (simp add: sampleEnv_def)
  have w1: "AuthMiddleware sampleEnv (requestWith ''service:beta'') =
       (http_Error (formatGraphqlError sampleEnv Background ''Invalid Token'') 403,
        [klog_Errorf ''INVALID TOKEN ATTEMPT 1 service:beta:203.0.113.7''])"
    using service_scheme_checks [OF p1, of sampleEnv] s1
    by (simp add: Header_Get_requestWith Context_requestWith ip)
  have w2: "fst (AuthMiddleware sampleEnv (requestWith ''service:unbound''))
       = http_Error (formatGraphqlError sampleEnv Background ''Invalid Token'') 403"
    using service_scheme_checks [OF p2, of sampleEnv "''redis: nil''"] s2 s4
    by (simp add: Header_Get_requestWith Context_requestWith)
  have w3: "fst (AuthMiddleware sampleEnv (requestWith ''service:garbled''))
       = http_Error (formatGraphqlError sampleEnv Background ''Invalid Token'') 403"
    using service_scheme_checks [OF p3, of sampleEnv "''invalid UUID format''" "''not-a-uuid''"]
      s3 s5 s6
    by (simp add: Header_Get_requestWith Context_requestWith)
  from p1 s1 w1 s2 s4 w2 s3 s5 s6 w3 show ?thesis
    by blast
qed

text \<open>
  Claim C6. Under the \<^verbatim>\<open>resetpassword:\<close> scheme the prefix is stripped and the rest is
  decoded to an email. A token that does not decode is rejected with status 403 before any
  store is asked; a decoded email that the one-time-token store does not hold is rejected
  with status 403 after that single lookup. When both steps succeed and the identity
  exists, the next handler runs with a request from whose context \<open>forContext\<close> reads back
  that identity with \<open>AuthType\<close> \<open>''token''\<close>; and the identity store is asked only when
  both steps have succeeded.
\<close>

theorem resetpassword_scheme_checks:
  assumes "HasPrefix (Header_Get (Header r) ''Authorization'') ''resetpassword:''"
    and "token = drop (length ''resetpassword:'') (Header_Get (Header r) ''Authorization'')"
  shows
   "(ParseToken env token = Inl err \<longrightarrow>
       AuthMiddleware env r =
         (http_Error (formatGraphqlError env (Context r) ''Invalid Token'') 403, []))
    \<and> (ParseToken env token = Inr email \<and> GetResetPasswordToken env email = Inl err \<longrightarrow>
       AuthMiddleware env r =
         (http_Error (formatGraphqlError env (Context r) ''Invalid Token'') 403,
          [RedisGetResetPasswordToken email]))
    \<and> (ParseToken env token = Inr email \<and> GetResetPasswordToken env email = Inr v
        \<and> GetUser env None (Some email) = Inr user \<longrightarrow>
       AuthMiddleware env r =
         (next_ServeHTTP (WithContext r (WithValue (Context r) userCtxKey
            (UserContextValuePtr (Some \<lparr>User = user, AuthType = ''token''\<rparr>)))),
          [RedisGetResetPasswordToken email, RepoGetUser None (Some email)])
       \<and> (\<exists>r'. fst (AuthMiddleware env r) = next_ServeHTTP r'
            \<and> forContext (Context r') = Some \<lparr>User = user, AuthType = ''token''\<rparr>))
    \<and> (RepoGetUser uid mail \<in> set (snd (AuthMiddleware env r)) \<longrightarrow>
       (\<exists>email v. ParseToken env token = Inr email \<and> GetResetPasswordToken env email = Inr v
          \<and> uid = None \<and> mail = Some email))"
  using assms
  by (auto simp: resetpassword_branch StatusForbidden_def forContext_WithContext
      split: sum.splits)

theorem resetpassword_scheme_checks_witness:
  "HasPrefix (Header_Get (Header (requestWith ''resetpassword:junk'')) ''Authorization'')
     ''resetpassword:''
   \<and> ParseToken sampleEnv ''junk'' = Inl ''token is malformed''
   \<and> AuthMiddleware sampleEnv (requestWith ''resetpassword:junk'') =
       (http_Error (formatGraphqlError sampleEnv Background ''Invalid Token'') 403, [])
   \<and> ParseToken sampleEnv ''t-stale'' = Inr ''stale@example.org''
   \<and> GetResetPasswordToken sampleEnv ''stale@example.org'' = Inl ''redis: nil''
   \<and> AuthMiddleware sampleEnv (requestWith ''resetpassword:t-stale'') =
       (http_Error (formatGraphqlError sampleEnv Background ''Invalid Token'') 403,
        [RedisGetResetPasswordToken ''stale@example.org''])
   \<and> ParseToken sampleEnv ''t-ann'' = Inr ''ann@example.org''
   \<and> GetResetPasswordToken sampleEnv ''ann@example.org'' = Inr ''1''
   \<and> GetUser sampleEnv None (Some ''ann@example.org'') = Inr (Some requester)
   \<and> AuthMiddleware sampleEnv (requestWith ''resetpassword:t-ann'') =
       (next_ServeHTTP (WithContext (requestWith ''resetpassword:t-ann'')
          (holding requester ''token'')),
        [RedisGetResetPasswordToken ''ann@example.org'',
         RepoGetUser None (Some ''ann@example.org'')])
   \<and> forContext (Context (WithContext (requestWith ''resetpassword:t-ann'')
         (holding requester ''token'')))
       = Some \<lparr>User = Some requester, AuthType = ''token''\<rparr>
   \<and> AuthorizedChangePassword (Context (WithContext (requestWith ''resetpassword:t-ann'')
         (holding requester ''token'')))
       = Some \<lparr>User = Some requester, AuthType = ''token''\<rparr>"
proof -
  have p1: "HasPrefix (Header_Get (Header (requestWith ''resetpassword:junk'')) ''Authorization'')
      ''resetpassword:''"
    by (simp add: Header_Get_requestWith HasPrefix_def)
  have p2: "HasPrefix (Header_Get (Header (requestWith ''resetpassword:t-stale''))
      ''Authorization'') ''resetpassword:''"
    by (simp add: Header_Get_requestWith HasPrefix_def)
  have p3: "HasPrefix (Header_Get (Header (requestWith ''resetpassword:t-ann''))
      ''Authorization'') ''resetpassword:''"
    by (simp add: Header_Get_requestWith HasPrefix_def)
  have d1: "''junk'' = drop (length ''resetpassword:'')
      (Header_Get (Header (requestWith ''resetpassword:junk'')) ''Authorization'')"
    by (simp add: Header_Get_requestWith)
  have d2: "''t-stale'' = drop (length ''resetpassword:'')
      (Header_Get (Header (requestWith ''resetpassword:t-stale'')) ''Authorization'')"
    by (simp add: Header_Get_requestWith)
  have d3: "''t-ann'' = drop (length ''resetpassword:'')
      (Header_Get (Header (requestWith ''resetpassword:t-ann'')) ''Authorization'')"
    by (simp add: Header_Get_requestWith)
  have s1: "ParseToken sampleEnv ''junk'' = Inl ''token is malformed''"
    by (simp add: sampleEnv_def)
  have s2: "ParseToken sampleEnv ''t-stale'' = Inr ''stale@example.org''"
    by (simp add: sampleEnv_def)
  have s3: "GetResetPasswordToken sampleEnv ''stale@example.org'' = Inl ''redis: nil''"
    by (simp add: sampleEnv_def)
  have s4: "ParseToken sampleEnv ''t-ann'' = Inr ''ann@example.org''"
    by (simp add: sampleEnv_def)
  have s5: "GetResetPasswordToken sampleEnv ''ann@example.org'' = Inr ''1''"
    by (simp add: sampleEnv_def)
  have s6: "GetUser sampleEnv None (Some ''ann@example.org'') = Inr (Some requester)"
    by (simp add: sampleEnv_def)
  have w1: "AuthMiddleware sampleEnv (requestWith ''resetpassword:junk'') =
       (http_Error (formatGraphqlError sampleEnv Background ''Invalid Token'') 403, [])"
    using resetpassword_scheme_checks [OF p1 d1, THEN conjunct1, rule_format, OF s1]
    by (simp add: Context_requestWith)
  have w2: "AuthMiddleware sampleEnv (requestWith ''resetpassword:t-stale'') =
       (http_Error (formatGraphqlError sampleEnv Background ''Invalid Token'') 403,
        [RedisGetResetPasswordToken ''stale@example.org''])"
    using resetpassword_scheme_checks [OF p2 d2, THEN conjunct2, THEN conjunct1, rule_format,
        OF conjI [OF s2 s3]]
    by (simp add: Context_requestWith)
  have w3: "AuthMiddleware sampleEnv (requestWith ''resetpassword:t-ann'') =
       (next_ServeHTTP (WithContext (requestWith ''resetpassword:t-ann'')
          (holding requester ''token'')),
        [RedisGetResetPasswordToken ''ann@example.org'',
         RepoGetUser None (Some ''ann@example.org'')])"
    using resetpassword_scheme_checks [OF p3 d3, THEN conjunct2, THEN conjunct2,
        THEN conjunct1, rule_format, OF conjI [OF s4 conjI [OF s5 s6]], THEN conjunct1]
    by (simp add: Context_requestWith holding_def)
  have "\<exists>r'. fst (AuthMiddleware sampleEnv (requestWith ''resetpassword:t-ann''))
        = next_ServeHTTP r'
      \<and> forContext (Context r') = Some \<lparr>User = Some requester, AuthType = ''token''\<rparr>"
    by (rule resetpassword_scheme_checks [OF p3 d3, THEN conjunct2, THEN conjunct2,
        THEN conjunct1, rule_format, OF conjI [OF s4 conjI [OF s5 s6]], THEN conjunct2])
  then have w4: "forContext (Context (WithContext (requestWith ''resetpassword:t-ann'')
         (holding requester ''token'')))
       = Some \<lparr>User = Some requester, AuthType = ''token''\<rparr>"
    by (simp add: w3)
  from w4 have w5: "AuthorizedChangePassword
       (Context (WithContext (requestWith ''resetpassword:t-ann'') (holding requester ''token'')))
       = Some \<lparr>User = Some requester, AuthType = ''token''\<rparr>"
    by (simp add: AuthorizedChangePassword_def)
  from p1 s1 w1 s2 s3 w2 s4 s5 s6 w3 w4 w5 show ?thesis
    by blast
qed

text \<open>
  Claim C7. Under each of the three schemes, when the credential passes every check and
  \<open>GetUser\<close> returns an error, the next handler is called with the request as it came in:
  nothing is attached to its context and no 403 is sent.
\<close>

theorem unknown_identity_passes_through:
  assumes "h = Header_Get (Header r) ''Authorization''"
  shows
   "(HasPrefix h ''resetpassword:''
       \<and> ParseToken env (drop (length ''resetpassword:'') h) = Inr email
       \<and> GetResetPasswordToken env email = Inr v
       \<and> GetUser env None (Some email) = Inl err \<longrightarrow>
      fst (AuthMiddleware env r) = next_ServeHTTP r)
    \<and> (HasPrefix h ''service:'' \<and> h \<in> set (GetServiceTokens env)
       \<and> GetServiceTokenUser env h = Inr userID \<and> uuid_Parse env userID = Inr userUUID
       \<and> GetUser env (Some userUUID) None = Inl err \<longrightarrow>
      fst (AuthMiddleware env r) = next_ServeHTTP r)
    \<and> (h \<noteq> [] \<and> \<not> HasPrefix h ''resetpassword:'' \<and> \<not> HasPrefix h ''service:''
       \<and> ParseToken env h = Inr email \<and> GetUser env None (Some email) = Inl err \<longrightarrow>
      fst (AuthMiddleware env r) = next_ServeHTTP r)"
proof (intro conjI impI)
  assume "HasPrefix h ''resetpassword:''
       \<and> ParseToken env (drop (length ''resetpassword:'') h) = Inr email
       \<and> GetResetPasswordToken env email = Inr v
       \<and> GetUser env None (Some email) = Inl err"
  with assms show "fst (AuthMiddleware env r) = next_ServeHTTP r"
    by (simp add: resetpassword_branch)
next
  assume "HasPrefix h ''service:'' \<and> h \<in> set (GetServiceTokens env)
       \<and> GetServiceTokenUser env h = Inr userID \<and> uuid_Parse env userID = Inr userUUID
       \<and> GetUser env (Some userUUID) None = Inl err"
  with assms show "fst (AuthMiddleware env r) = next_ServeHTTP r"
    by (simp add: service_branch Let_def)
next
  assume "h \<noteq> [] \<and> \<not> HasPrefix h ''resetpassword:'' \<and> \<not> HasPrefix h ''service:''
       \<and> ParseToken env h = Inr email \<and> GetUser env None (Some email) = Inl err"
  with assms show "fst (AuthMiddleware env r) = next_ServeHTTP r"
    by (simp add: bearer_branch)
qed

theorem unknown_identity_passes_through_witness:
  "fst (AuthMiddleware sampleEnv (requestWith ''resetpassword:t-ghost''))
     = next_ServeHTTP (requestWith ''resetpassword:t-ghost'')
   \<and> fst (AuthMiddleware sampleEnv (requestWith ''service:ghost''))
     = next_ServeHTTP (requestWith ''service:ghost'')
   \<and> fst (AuthMiddleware sampleEnv (requestWith ''t-ghost''))
     = next_ServeHTTP (requestWith ''t-ghost'')
   \<and> forContext (Context (requestWith ''t-ghost'')) = None"
proof -
  have e: "ParseToken sampleEnv ''t-ghost'' = Inr ''ghost@example.org''"
    "GetResetPasswordToken sampleEnv ''ghost@example.org'' = Inr ''1''"
    "GetUser sampleEnv None (Some ''ghost@example.org'') = Inl ''record not found''"
    "''service:ghost'' \<in> set (GetServiceTokens sampleEnv)"
    "GetServiceTokenUser sampleEnv ''service:ghost'' = Inr ''id-ghost''"
    "uuid_Parse sampleEnv ''id-ghost'' = Inr 2"
    "GetUser sampleEnv (Some 2) None = Inl ''record not found''"
    by (simp_all add: sampleEnv_def)
  have w1: "fst (AuthMiddleware sampleEnv (requestWith ''resetpassword:t-ghost''))
     = next_ServeHTTP (requestWith ''resetpassword:t-ghost'')"
    using unknown_identity_passes_through [of "''resetpassword:t-ghost''"
        "requestWith ''resetpassword:t-ghost''" sampleEnv "''ghost@example.org''" "''1''"
        "''record not found''"] e
    by (simp add: Header_Get_requestWith HasPrefix_def)
  have w2: "fst (AuthMiddleware sampleEnv (requestWith ''service:ghost''))
     = next_ServeHTTP (requestWith ''service:ghost'')"
    using unknown_identity_passes_through [of "''service:ghost''"
        "requestWith ''service:ghost''" sampleEnv _ _ "''record not found''" "''id-ghost''" 2] e
    by (simp add: Header_Get_requestWith HasPrefix_def)
  have w3: "fst (AuthMiddleware sampleEnv (requestWith ''t-ghost''))
     = next_ServeHTTP (requestWith ''t-ghost'')"
    using unknown_identity_passes_through [of "''t-ghost''"
        "requestWith ''t-ghost''" sampleEnv "''ghost@example.org''" _ "''record not found''"] e
    by (simp add: Header_Get_requestWith HasPrefix_def)
  have w4: "forContext (Context (requestWith ''t-ghost'')) = None"
    by (simp add: Context_requestWith forContext_def)
  from w1 w2 w3 w4 show ?thesis
    by blast
qed

text \<open>
  Claim C8. When the request has no \<^verbatim>\<open>Authorization\<close> header, or an empty one, the next
  handler is called with the request as it came in, and nothing else happens: no store is
  asked and nothing is logged, whatever the collaborators are.
\<close>

theorem absent_header_passes_through:
  assumes "Header r ''Authorization'' = None \<or> Header_Get (Header r) ''Authorization'' = []"
  shows "AuthMiddleware env r = (next_ServeHTTP r, [])"
proof -
  from assms have "Header_Get (Header r) ''Authorization'' = []"
    by (auto simp: Header_Get_def)
  then show ?thesis
    by (simp add: AuthMiddleware_def)
qed

theorem absent_header_passes_through_witness:
  "Header requestWithout ''Authorization'' = None
   \<and> AuthMiddleware sampleEnv requestWithout = (next_ServeHTTP requestWithout, [])
   \<and> Header_Get (Header (requestWith [])) ''Authorization'' = []
   \<and> AuthMiddleware sampleEnv (requestWith []) = (next_ServeHTTP (requestWith []), [])"
proof -
  have a: "Header requestWithout ''Authorization'' = None"
    by (simp add: requestWithout_def)
  have b: "Header_Get (Header (requestWith [])) ''Authorization'' = []"
    by (simp add: Header_Get_requestWith)
  from a have a': "Header requestWithout ''Authorization'' = None
      \<or> Header_Get (Header requestWithout) ''Authorization'' = []" ..
  from b have b': "Header (requestWith []) ''Authorization'' = None
      \<or> Header_Get (Header (requestWith [])) ''Authorization'' = []" ..
  from a b absent_header_passes_through [OF a', of sampleEnv]
    absent_header_passes_through [OF b', of sampleEnv]
  show ?thesis by blast
qed

text \<open>
  Claim C9. The work-event channel made by \<open>runServer\<close> has capacity 100 and starts
  empty: a run of sends with no receiver blocks exactly when it is longer than 100, so the
  101st pending submission is the first to block. The block-awarded channel has capacity 0:
  every send on it blocks until a receiver takes the value.
\<close>

theorem runServer_queue_capacities:
  "cap (statsChan (runServer :: ('w, 'c) queues)) = 100
   \<and> buf (statsChan (runServer :: ('w, 'c) queues)) = []
   \<and> (sendAll (statsChan (runServer :: ('w, 'c) queues)) ms = None \<longleftrightarrow> 100 < length ms)
   \<and> cap (blockAwardedChan (runServer :: ('w, 'c) queues)) = 0
   \<and> send (blockAwardedChan (runServer :: ('w, 'c) queues)) m = None"
  by (auto simp: sendAll_blocks runServer_def make_chan_def send_def)

text \<open>
  Claim C10. When the context holds nothing under \<open>userCtxKey\<close>, or holds a value of
  another type there, \<open>forContext\<close> yields the nil pointer and each of the five predicates
  denies. The predicates are total functions into an option: the checked type assertion
  and the nil tests in front of every field read leave no panicking branch to model.
\<close>

theorem predicates_deny_without_AuthContext:
  assumes "Value ctx userCtxKey = None \<or> Value ctx userCtxKey = Some (otherValue s)"
  shows "forContext ctx = None \<and> AuthorizedUser ctx = None \<and> AuthorizedProvider ctx = None
    \<and> AuthorizedRequester ctx = None \<and> AuthorizedServiceToken ctx = None
    \<and> AuthorizedChangePassword ctx = None"
proof -
  from assms have "forContext ctx = None"
    by (auto simp: forContext_def)
  then show ?thesis
    by (simp add: absent_denied)
qed

theorem predicates_deny_without_AuthContext_witness:
  "Value Background userCtxKey = None
   \<and> AuthorizedUser Background = None \<and> AuthorizedProvider Background = None
   \<and> AuthorizedRequester Background = None \<and> AuthorizedServiceToken Background = None
   \<and> AuthorizedChangePassword Background = None
   \<and> Value (WithValue Background userCtxKey (otherValue ''session'')) userCtxKey
       = Some (otherValue ''session'')
   \<and> AuthorizedUser (WithValue Background userCtxKey (otherValue ''session'')) = None
   \<and> AuthorizedProvider (WithValue Background userCtxKey (otherValue ''session'')) = None
   \<and> AuthorizedRequester (WithValue Background userCtxKey (otherValue ''session'')) = None
   \<and> AuthorizedServiceToken (WithValue Background userCtxKey (otherValue ''session'')) = None
   \<and> AuthorizedChangePassword (WithValue Background userCtxKey (otherValue ''session'')) = None"
  using
    predicates_deny_without_AuthContext [of Background "''session''"]
    predicates_deny_without_AuthContext
      [of "WithValue Background userCtxKey (otherValue ''session'')" "''session''"]
  by simp

end
